theory Spec2Isabelle
  imports Complex_Main "HOL-Library.AList"
begin

section \<open>Values, errors and the environment\<close>

text \<open>
  The service (\<^verbatim>\<open>main.py\<close>) keeps four module-level dictionaries and serves create, list,
  get and patch requests on them. Records are Pydantic models; a handler moves data between
  models through plain dictionaries (\<^verbatim>\<open>model_dump\<close>, \<^verbatim>\<open>dict.update\<close>, \<^verbatim>\<open>Model(**d)\<close>).
  The embedding keeps these three steps apart, because what a patch does to a record is
  decided by which keys the intermediate dictionary holds.
\<close>

text \<open>A UUID is a 128-bit number; a \<^verbatim>\<open>datetime\<close> is counted in microseconds.\<close>

type_synonym uuid = nat
type_synonym datetime = int

text \<open>
  A Python \<^verbatim>\<open>float\<close>, by the number it denotes. \<^verbatim>\<open>==\<close> on floats is numeric equality,
  except that NaN is equal to nothing, itself included.
\<close>

datatype pyfloat = Finite rat | PosInf | NegInf | NaN

definition float_eq :: "pyfloat \<Rightarrow> pyfloat \<Rightarrow> bool" where
  "float_eq a b = (a \<noteq> NaN \<and> b \<noteq> NaN \<and> a = b)"

text \<open>The values that occur in a dumped model.\<close>

datatype pyval =
    VNone
  | VStr string
  | VInt int
  | VFloat pyfloat
  | VUUID uuid
  | VDateTime datetime

type_synonym pydict = "string \<rightharpoonup> pyval"

text \<open>
  The exceptions a handler can leave with: \<^verbatim>\<open>HTTPException(status_code, detail)\<close> raised by
  the handler itself, Pydantic's \<^verbatim>\<open>ValidationError\<close> raised by a model constructor, and
  Python's \<^verbatim>\<open>AttributeError\<close> raised by reading an attribute the object does not have.
\<close>

datatype error =
    HTTPException nat string
  | ValidationError
  | AttributeError

text \<open>
  A field of an update payload. Pydantic records which fields the client sent
  (\<^verbatim>\<open>model_fields_set\<close>): a field is either absent from the request, or present with a value
  that may be \<^verbatim>\<open>null\<close> (every field of an update model is \<^verbatim>\<open>Optional\<close>).
\<close>

datatype 'a update_field = Unset | Given "'a option"

text \<open>
  \<^verbatim>\<open>model_dump(exclude_unset=True)\<close> for one field: no key when the field was not sent,
  the key with \<^verbatim>\<open>None\<close> or with the value otherwise.
\<close>

fun dump_field :: "string \<Rightarrow> ('a \<Rightarrow> pyval) \<Rightarrow> 'a update_field \<Rightarrow> pydict" where
  "dump_field k conv Unset = Map.empty"
| "dump_field k conv (Given None) = [k \<mapsto> VNone]"
| "dump_field k conv (Given (Some v)) = [k \<mapsto> conv v]"

fun dump_optional :: "('a \<Rightarrow> pyval) \<Rightarrow> 'a option \<Rightarrow> pyval" where
  "dump_optional conv None = VNone"
| "dump_optional conv (Some v) = conv v"

subsection \<open>Records\<close>

text \<open>\<^verbatim>\<open>models/account.py\<close>: \<^verbatim>\<open>AccountCreate\<close>, \<^verbatim>\<open>AccountUpdate\<close>, \<^verbatim>\<open>AccountRead\<close>.\<close>

record AccountCreate =
  ac_username :: string
  ac_number_id :: int
  ac_amount :: pyfloat

record AccountUpdate =
  au_username :: "string update_field"
  au_number_id :: "int update_field"
  au_amount :: "pyfloat update_field"

record AccountRead =
  ar_username :: string
  ar_number_id :: int
  ar_amount :: pyfloat
  ar_id :: uuid
  ar_created_at :: datetime
  ar_updated_at :: datetime

text \<open>
  \<^verbatim>\<open>models/classes.py\<close>: \<^verbatim>\<open>ClassCreate\<close>, \<^verbatim>\<open>ClassUpdate\<close>, \<^verbatim>\<open>ClassRead\<close>. \<^verbatim>\<open>ClassRead\<close>
  declares \<^verbatim>\<open>created_at\<close> and \<^verbatim>\<open>updated_at\<close> on top of \<^verbatim>\<open>ClassBase\<close>, and no \<^verbatim>\<open>id\<close>.
\<close>

record ClassCreate =
  cc_name :: string
  cc_description :: "string option"

record ClassUpdate =
  cu_name :: "string update_field"
  cu_description :: "string update_field"

record ClassRead =
  cr_name :: string
  cr_description :: "string option"
  cr_created_at :: datetime
  cr_updated_at :: datetime

text \<open>
  Modelled from the spec: \<^verbatim>\<open>models/address.py\<close> and \<^verbatim>\<open>models/person.py\<close> are not among
  the source files; the handlers of \<^verbatim>\<open>main.py\<close> that read these records are. The spec gives
  an Address the domain fields street, city, state, postal_code and country, and a Person
  uni, first_name, last_name, email, phone, birth_date (a calendar date) and addresses, an
  ordered list of embedded Address-shaped records; a stored record adds \<^verbatim>\<open>id\<close>,
  \<^verbatim>\<open>created_at\<close> and \<^verbatim>\<open>updated_at\<close>.
\<close>

record Address =
  ad_street :: string
  ad_city :: string
  ad_state :: string
  ad_postal_code :: string
  ad_country :: string

record AddressRead = Address +
  ad_id :: uuid
  ad_created_at :: datetime
  ad_updated_at :: datetime

record date =
  d_year :: nat
  d_month :: nat
  d_day :: nat

record PersonRead =
  pr_uni :: string
  pr_first_name :: string
  pr_last_name :: string
  pr_email :: string
  pr_phone :: string
  pr_birth_date :: date
  pr_addresses :: "Address list"
  pr_id :: uuid
  pr_created_at :: datetime
  pr_updated_at :: datetime

text \<open>
  Modelled from the spec: \<^verbatim>\<open>str\<close> of a date, its canonical text form. Python prints a
  \<^verbatim>\<open>date\<close> as \<^verbatim>\<open>YYYY-MM-DD\<close>, the year in four digits (a year is between 1 and 9999), month
  and day in two.
\<close>

definition digit :: "nat \<Rightarrow> char" where
  "digit n = ''0123456789'' ! (n mod 10)"

definition pad2 :: "nat \<Rightarrow> string" where
  "pad2 n = [digit (n div 10), digit n]"

definition pad4 :: "nat \<Rightarrow> string" where
  "pad4 n = [digit (n div 1000), digit (n div 100), digit (n div 10), digit n]"

definition date_str :: "date \<Rightarrow> string" where
  "date_str d = pad4 (d_year d) @ ''-'' @ pad2 (d_month d) @ ''-'' @ pad2 (d_day d)"

subsection \<open>The process state\<close>

text \<open>
  A Python \<^verbatim>\<open>dict\<close> iterates in insertion order, and assigning to a key that is already
  there keeps the key's position: an association list with \<^const>\<open>AList.update\<close> for
  \<^verbatim>\<open>d[k] = v\<close>, \<^const>\<open>map_of\<close> for the lookup and \<^term>\<open>map snd\<close> for \<^verbatim>\<open>d.values()\<close>.

  \<^verbatim>\<open>uuid4()\<close> and \<^verbatim>\<open>datetime.utcnow()\<close> read the outside world. The state carries what they
  will answer (\<open>uuid_source\<close>, \<open>clock\<close>: the answer to the n-th call) and how many calls
  have been made, so that two calls in one request are two readings.

  The \<^verbatim>\<open>classes\<close> dictionary is annotated \<^verbatim>\<open>Dict[UUID, ClassRead]\<close>, but its key is whatever
  \<^verbatim>\<open>class_read.id\<close> evaluates to, so its keys are values.
\<close>

record state =
  persons :: "(uuid \<times> PersonRead) list"
  addresses :: "(uuid \<times> AddressRead) list"
  classes :: "(pyval \<times> ClassRead) list"
  accounts :: "(uuid \<times> AccountRead) list"
  uuid_source :: "nat \<Rightarrow> uuid"
  uuid_calls :: nat
  clock :: "nat \<Rightarrow> datetime"
  clock_calls :: nat

definition uuid4 :: "state \<Rightarrow> uuid \<times> state" where
  "uuid4 s = (uuid_source s (uuid_calls s), s\<lparr>uuid_calls := uuid_calls s + 1\<rparr>)"

definition utcnow :: "state \<Rightarrow> datetime \<times> state" where
  "utcnow s = (clock s (clock_calls s), s\<lparr>clock_calls := clock_calls s + 1\<rparr>)"

section \<open>Model construction\<close>

text \<open>
  \<^verbatim>\<open>Model(**d)\<close> validates every declared field in declaration order. A required field must
  be in \<^verbatim>\<open>d\<close> with a value of its type; a field with a \<^verbatim>\<open>default_factory\<close> calls the factory
  when its key is missing and validates the given value otherwise. Keys that name no field
  are ignored. The constructor raises \<^verbatim>\<open>ValidationError\<close> when any field failed.

  The dictionaries that reach a constructor here come from \<^verbatim>\<open>model_dump\<close> of validated
  models, so a key holds a value of its field's type or \<^verbatim>\<open>None\<close>. A validator below accepts
  a value of the field's type (and an \<^verbatim>\<open>int\<close> where a \<^verbatim>\<open>float\<close> is wanted). Pydantic's other
  coercions (a numeric string for an \<^verbatim>\<open>int\<close>, a string for a UUID or a \<^verbatim>\<open>datetime\<close>) have no
  input here and are left out: such a value is rejected. \<^verbatim>\<open>None\<close> is rejected by every field
  that is not declared \<^verbatim>\<open>Optional\<close>.
\<close>

fun validate_str :: "pyval option \<Rightarrow> string option" where
  "validate_str (Some (VStr x)) = Some x"
| "validate_str _ = None"

fun validate_int :: "pyval option \<Rightarrow> int option" where
  "validate_int (Some (VInt i)) = Some i"
| "validate_int _ = None"

fun validate_float :: "pyval option \<Rightarrow> pyfloat option" where
  "validate_float (Some (VFloat f)) = Some f"
| "validate_float (Some (VInt i)) = Some (Finite (of_int i))"
| "validate_float _ = None"

text \<open>\<^verbatim>\<open>Optional[str] = None\<close>: a missing key and \<^verbatim>\<open>None\<close> both give \<^verbatim>\<open>None\<close>.\<close>

fun validate_optional_str :: "pyval option \<Rightarrow> string option option" where
  "validate_optional_str None = Some None"
| "validate_optional_str (Some VNone) = Some None"
| "validate_optional_str (Some (VStr x)) = Some (Some x)"
| "validate_optional_str _ = None"

fun validate_uuid_default :: "pyval option \<Rightarrow> state \<Rightarrow> uuid option \<times> state" where
  "validate_uuid_default None s = (case uuid4 s of (u, s') \<Rightarrow> (Some u, s'))"
| "validate_uuid_default (Some (VUUID u)) s = (Some u, s)"
| "validate_uuid_default (Some _) s = (None, s)"

fun validate_datetime_default :: "pyval option \<Rightarrow> state \<Rightarrow> datetime option \<times> state" where
  "validate_datetime_default None s = (case utcnow s of (t, s') \<Rightarrow> (Some t, s'))"
| "validate_datetime_default (Some (VDateTime t)) s = (Some t, s)"
| "validate_datetime_default (Some _) s = (None, s)"

text \<open>
  \<^verbatim>\<open>AccountRead(**d)\<close>: \<^verbatim>\<open>username\<close>, \<^verbatim>\<open>number_id\<close>, \<^verbatim>\<open>amount\<close> are required;
  \<^verbatim>\<open>id\<close> defaults to \<^verbatim>\<open>uuid4()\<close>, \<^verbatim>\<open>created_at\<close> and \<^verbatim>\<open>updated_at\<close> each to their own
  call of \<^verbatim>\<open>datetime.utcnow()\<close>.
\<close>

definition AccountRead_init :: "pydict \<Rightarrow> state \<Rightarrow> (error + AccountRead) \<times> state" where
  "AccountRead_init d s0 =
    (case validate_uuid_default (d ''id'') s0 of (i, s1) \<Rightarrow>
     case validate_datetime_default (d ''created_at'') s1 of (c, s2) \<Rightarrow>
     case validate_datetime_default (d ''updated_at'') s2 of (u, s3) \<Rightarrow>
     (case (validate_str (d ''username''), validate_int (d ''number_id''),
            validate_float (d ''amount''), i, c, u) of
        (Some un, Some n, Some a, Some i', Some c', Some u') \<Rightarrow>
          (Inr \<lparr>ar_username = un, ar_number_id = n, ar_amount = a,
                ar_id = i', ar_created_at = c', ar_updated_at = u'\<rparr>, s3)
      | _ \<Rightarrow> (Inl ValidationError, s3)))"

definition AccountCreate_model_dump :: "AccountCreate \<Rightarrow> pydict" where
  "AccountCreate_model_dump a =
     [''username'' \<mapsto> VStr (ac_username a),
      ''number_id'' \<mapsto> VInt (ac_number_id a),
      ''amount'' \<mapsto> VFloat (ac_amount a)]"

definition AccountRead_model_dump :: "AccountRead \<Rightarrow> pydict" where
  "AccountRead_model_dump r =
     [''username'' \<mapsto> VStr (ar_username r),
      ''number_id'' \<mapsto> VInt (ar_number_id r),
      ''amount'' \<mapsto> VFloat (ar_amount r),
      ''id'' \<mapsto> VUUID (ar_id r),
      ''created_at'' \<mapsto> VDateTime (ar_created_at r),
      ''updated_at'' \<mapsto> VDateTime (ar_updated_at r)]"

text \<open>\<^verbatim>\<open>update.model_dump(exclude_unset=True)\<close> for an \<^verbatim>\<open>AccountUpdate\<close>.\<close>

definition AccountUpdate_model_dump :: "AccountUpdate \<Rightarrow> pydict" where
  "AccountUpdate_model_dump u =
     dump_field ''username'' VStr (au_username u)
     ++ dump_field ''number_id'' VInt (au_number_id u)
     ++ dump_field ''amount'' VFloat (au_amount u)"

text \<open>
  \<^verbatim>\<open>ClassRead(**d)\<close>: \<^verbatim>\<open>name\<close> is required, \<^verbatim>\<open>description\<close> is optional; \<^verbatim>\<open>created_at\<close>
  and \<^verbatim>\<open>updated_at\<close> each default to their own call of \<^verbatim>\<open>datetime.utcnow()\<close>.
\<close>

definition ClassRead_init :: "pydict \<Rightarrow> state \<Rightarrow> (error + ClassRead) \<times> state" where
  "ClassRead_init d s0 =
    (case validate_datetime_default (d ''created_at'') s0 of (c, s1) \<Rightarrow>
     case validate_datetime_default (d ''updated_at'') s1 of (u, s2) \<Rightarrow>
     (case (validate_str (d ''name''), validate_optional_str (d ''description''), c, u) of
        (Some n, Some ds, Some c', Some u') \<Rightarrow>
          (Inr \<lparr>cr_name = n, cr_description = ds,
                cr_created_at = c', cr_updated_at = u'\<rparr>, s2)
      | _ \<Rightarrow> (Inl ValidationError, s2)))"

definition ClassCreate_model_dump :: "ClassCreate \<Rightarrow> pydict" where
  "ClassCreate_model_dump c =
     [''name'' \<mapsto> VStr (cc_name c),
      ''description'' \<mapsto> dump_optional VStr (cc_description c)]"

definition ClassRead_model_dump :: "ClassRead \<Rightarrow> pydict" where
  "ClassRead_model_dump r =
     [''name'' \<mapsto> VStr (cr_name r),
      ''description'' \<mapsto> dump_optional VStr (cr_description r),
      ''created_at'' \<mapsto> VDateTime (cr_created_at r),
      ''updated_at'' \<mapsto> VDateTime (cr_updated_at r)]"

definition ClassUpdate_model_dump :: "ClassUpdate \<Rightarrow> pydict" where
  "ClassUpdate_model_dump u =
     dump_field ''name'' VStr (cu_name u)
     ++ dump_field ''description'' VStr (cu_description u)"

text \<open>
  Reading an attribute of a \<^verbatim>\<open>ClassRead\<close> object: the value of the field of that name, and
  \<^verbatim>\<open>AttributeError\<close> when the model has no such field.
\<close>

definition ClassRead_getattr :: "ClassRead \<Rightarrow> string \<Rightarrow> error + pyval" where
  "ClassRead_getattr r a =
    (case ClassRead_model_dump r a of None \<Rightarrow> Inl AttributeError | Some v \<Rightarrow> Inr v)"

section \<open>Person and address endpoints\<close>

text \<open>\<^verbatim>\<open>list_addresses\<close>, \<^verbatim>\<open>get_address\<close>, \<^verbatim>\<open>list_persons\<close> and \<^verbatim>\<open>get_person\<close>.\<close>

definition list_addresses ::
  "string option \<Rightarrow> string option \<Rightarrow> string option \<Rightarrow> string option \<Rightarrow> string option
   \<Rightarrow> state \<Rightarrow> AddressRead list \<times> state" where
  "list_addresses street city state postal_code country s =
    (let results = map snd (addresses s);
         results = (case street of None \<Rightarrow> results
                    | Some v \<Rightarrow> filter (\<lambda>a. ad_street a = v) results);
         results = (case city of None \<Rightarrow> results
                    | Some v \<Rightarrow> filter (\<lambda>a. ad_city a = v) results);
         results = (case state of None \<Rightarrow> results
                    | Some v \<Rightarrow> filter (\<lambda>a. ad_state a = v) results);
         results = (case postal_code of None \<Rightarrow> results
                    | Some v \<Rightarrow> filter (\<lambda>a. ad_postal_code a = v) results);
         results = (case country of None \<Rightarrow> results
                    | Some v \<Rightarrow> filter (\<lambda>a. ad_country a = v) results)
     in (results, s))"

definition get_address :: "uuid \<Rightarrow> state \<Rightarrow> (error + AddressRead) \<times> state" where
  "get_address address_id s =
    (case map_of (addresses s) address_id of
       None \<Rightarrow> (Inl (HTTPException 404 ''Address not found''), s)
     | Some r \<Rightarrow> (Inr r, s))"

definition list_persons ::
  "string option \<Rightarrow> string option \<Rightarrow> string option \<Rightarrow> string option \<Rightarrow> string option
   \<Rightarrow> string option \<Rightarrow> string option \<Rightarrow> string option
   \<Rightarrow> state \<Rightarrow> PersonRead list \<times> state" where
  "list_persons uni first_name last_name email phone birth_date city country s =
    (let results = map snd (persons s);
         results = (case uni of None \<Rightarrow> results
                    | Some v \<Rightarrow> filter (\<lambda>p. pr_uni p = v) results);
         results = (case first_name of None \<Rightarrow> results
                    | Some v \<Rightarrow> filter (\<lambda>p. pr_first_name p = v) results);
         results = (case last_name of None \<Rightarrow> results
                    | Some v \<Rightarrow> filter (\<lambda>p. pr_last_name p = v) results);
         results = (case email of None \<Rightarrow> results
                    | Some v \<Rightarrow> filter (\<lambda>p. pr_email p = v) results);
         results = (case phone of None \<Rightarrow> results
                    | Some v \<Rightarrow> filter (\<lambda>p. pr_phone p = v) results);
         results = (case birth_date of None \<Rightarrow> results
                    | Some v \<Rightarrow> filter (\<lambda>p. date_str (pr_birth_date p) = v) results);
         results = (case city of None \<Rightarrow> results
                    | Some v \<Rightarrow>
                        filter (\<lambda>p. list_ex (\<lambda>addr. ad_city addr = v) (pr_addresses p)) results);
         results = (case country of None \<Rightarrow> results
                    | Some v \<Rightarrow>
                        filter (\<lambda>p. list_ex (\<lambda>addr. ad_country addr = v) (pr_addresses p)) results)
     in (results, s))"

definition get_person :: "uuid \<Rightarrow> state \<Rightarrow> (error + PersonRead) \<times> state" where
  "get_person person_id s =
    (case map_of (persons s) person_id of
       None \<Rightarrow> (Inl (HTTPException 404 ''Person not found''), s)
     | Some r \<Rightarrow> (Inr r, s))"

section \<open>Class endpoints\<close>

text \<open>
  \<^verbatim>\<open>create_class\<close>: build a \<^verbatim>\<open>ClassRead\<close> from the dumped payload, then store it under
  \<^verbatim>\<open>class_read.id\<close>.
\<close>

definition create_class :: "ClassCreate \<Rightarrow> state \<Rightarrow> (error + ClassRead) \<times> state" where
  "create_class cls s =
    (case ClassRead_init (ClassCreate_model_dump cls) s of
       (Inl e, s1) \<Rightarrow> (Inl e, s1)
     | (Inr class_read, s1) \<Rightarrow>
         (case ClassRead_getattr class_read ''id'' of
            Inl e \<Rightarrow> (Inl e, s1)
          | Inr k \<Rightarrow>
              (Inr class_read, s1\<lparr>classes := AList.update k class_read (classes s1)\<rparr>)))"

definition list_classes ::
  "string option \<Rightarrow> string option \<Rightarrow> state \<Rightarrow> ClassRead list \<times> state" where
  "list_classes name description s =
    (let results = map snd (classes s);
         results = (case name of None \<Rightarrow> results
                    | Some v \<Rightarrow> filter (\<lambda>c. cr_name c = v) results);
         results = (case description of None \<Rightarrow> results
                    | Some v \<Rightarrow> filter (\<lambda>c. cr_description c = Some v) results)
     in (results, s))"

definition get_class :: "uuid \<Rightarrow> state \<Rightarrow> (error + ClassRead) \<times> state" where
  "get_class class_id s =
    (case map_of (classes s) (VUUID class_id) of
       None \<Rightarrow> (Inl (HTTPException 404 ''Class not found''), s)
     | Some r \<Rightarrow> (Inr r, s))"

definition update_class ::
  "uuid \<Rightarrow> ClassUpdate \<Rightarrow> state \<Rightarrow> (error + ClassRead) \<times> state" where
  "update_class class_id update s =
    (case map_of (classes s) (VUUID class_id) of
       None \<Rightarrow> (Inl (HTTPException 404 ''Class not found''), s)
     | Some r \<Rightarrow>
        (let stored = ClassRead_model_dump r ++ ClassUpdate_model_dump update
         in case ClassRead_init stored s of
              (Inl e, s1) \<Rightarrow> (Inl e, s1)
            | (Inr new, s1) \<Rightarrow>
                (Inr new,
                 s1\<lparr>classes := AList.update (VUUID class_id) new (classes s1)\<rparr>)))"

section \<open>Account endpoints\<close>

text \<open>
  \<^verbatim>\<open>create_account\<close>: build an \<^verbatim>\<open>AccountRead\<close> from the dumped payload, store it under its
  own \<^verbatim>\<open>id\<close>, return it.
\<close>

definition create_account :: "AccountCreate \<Rightarrow> state \<Rightarrow> (error + AccountRead) \<times> state" where
  "create_account account s =
    (case AccountRead_init (AccountCreate_model_dump account) s of
       (Inl e, s1) \<Rightarrow> (Inl e, s1)
     | (Inr account_read, s1) \<Rightarrow>
         (Inr account_read,
          s1\<lparr>accounts := AList.update (ar_id account_read) account_read (accounts s1)\<rparr>))"

text \<open>
  \<^verbatim>\<open>list_accounts\<close>: start from \<^verbatim>\<open>list(accounts.values())\<close> and narrow it once per supplied
  query parameter.
\<close>

definition list_accounts ::
  "string option \<Rightarrow> int option \<Rightarrow> pyfloat option \<Rightarrow> state \<Rightarrow> AccountRead list \<times> state" where
  "list_accounts username number_id amount s =
    (let results = map snd (accounts s);
         results = (case username of None \<Rightarrow> results
                    | Some v \<Rightarrow> filter (\<lambda>a. ar_username a = v) results);
         results = (case number_id of None \<Rightarrow> results
                    | Some v \<Rightarrow> filter (\<lambda>a. ar_number_id a = v) results);
         results = (case amount of None \<Rightarrow> results
                    | Some v \<Rightarrow> filter (\<lambda>a. float_eq (ar_amount a) v) results)
     in (results, s))"

definition get_account :: "uuid \<Rightarrow> state \<Rightarrow> (error + AccountRead) \<times> state" where
  "get_account account_id s =
    (case map_of (accounts s) account_id of
       None \<Rightarrow> (Inl (HTTPException 404 ''Account not found''), s)
     | Some r \<Rightarrow> (Inr r, s))"

text \<open>
  \<^verbatim>\<open>update_account\<close>: dump the stored record, overlay the keys the client sent, rebuild an
  \<^verbatim>\<open>AccountRead\<close> from the merged dictionary and store it under the same key.
\<close>

definition update_account ::
  "uuid \<Rightarrow> AccountUpdate \<Rightarrow> state \<Rightarrow> (error + AccountRead) \<times> state" where
  "update_account account_id update s =
    (case map_of (accounts s) account_id of
       None \<Rightarrow> (Inl (HTTPException 404 ''Account not found''), s)
     | Some r \<Rightarrow>
        (let stored = AccountRead_model_dump r ++ AccountUpdate_model_dump update
         in case AccountRead_init stored s of
              (Inl e, s1) \<Rightarrow> (Inl e, s1)
            | (Inr new, s1) \<Rightarrow>
                (Inr new, s1\<lparr>accounts := AList.update account_id new (accounts s1)\<rparr>)))"

section \<open>Reference definitions and example data\<close>

text \<open>
  What a sent field does to a stored value: a field sent with a value replaces it, a field
  that was not sent keeps it.
\<close>

definition overlay :: "'a update_field \<Rightarrow> 'a \<Rightarrow> 'a" where
  "overlay f old = (case f of Given (Some v) \<Rightarrow> v | _ \<Rightarrow> old)"

text \<open>
  The filter contract in the spec's words: a record passes when every supplied predicate's
  field equals the given value; a predicate that is not supplied constrains nothing. Equality
  is Python's \<^verbatim>\<open>==\<close>.
\<close>

definition account_matches ::
  "string option \<Rightarrow> int option \<Rightarrow> pyfloat option \<Rightarrow> AccountRead \<Rightarrow> bool" where
  "account_matches username number_id amount a =
    ((case username of None \<Rightarrow> True | Some v \<Rightarrow> ar_username a = v)
     \<and> (case number_id of None \<Rightarrow> True | Some v \<Rightarrow> ar_number_id a = v)
     \<and> (case amount of None \<Rightarrow> True | Some v \<Rightarrow> float_eq (ar_amount a) v))"

definition person_matches ::
  "string option \<Rightarrow> string option \<Rightarrow> string option \<Rightarrow> string option \<Rightarrow> string option
   \<Rightarrow> string option \<Rightarrow> string option \<Rightarrow> string option \<Rightarrow> PersonRead \<Rightarrow> bool" where
  "person_matches uni first_name last_name email phone birth_date city country p =
    ((case uni of None \<Rightarrow> True | Some v \<Rightarrow> pr_uni p = v)
     \<and> (case first_name of None \<Rightarrow> True | Some v \<Rightarrow> pr_first_name p = v)
     \<and> (case last_name of None \<Rightarrow> True | Some v \<Rightarrow> pr_last_name p = v)
     \<and> (case email of None \<Rightarrow> True | Some v \<Rightarrow> pr_email p = v)
     \<and> (case phone of None \<Rightarrow> True | Some v \<Rightarrow> pr_phone p = v)
     \<and> (case birth_date of None \<Rightarrow> True | Some v \<Rightarrow> date_str (pr_birth_date p) = v)
     \<and> (case city of None \<Rightarrow> True
         | Some v \<Rightarrow> \<exists>addr \<in> set (pr_addresses p). ad_city addr = v)
     \<and> (case country of None \<Rightarrow> True
         | Some v \<Rightarrow> \<exists>addr \<in> set (pr_addresses p). ad_country addr = v))"

text \<open>
  A small state to run the handlers on: two accounts, one class, one person with two
  addresses; the clock advances by one microsecond per reading.
\<close>

definition alice :: AccountRead where
  "alice = \<lparr>ar_username = ''alice'', ar_number_id = 1, ar_amount = Finite 10,
            ar_id = 7, ar_created_at = 5, ar_updated_at = 5\<rparr>"

definition bob :: AccountRead where
  "bob = \<lparr>ar_username = ''bob'', ar_number_id = 2, ar_amount = Finite 20,
          ar_id = 8, ar_created_at = 6, ar_updated_at = 6\<rparr>"

definition maths :: ClassRead where
  "maths = \<lparr>cr_name = ''Mathematics 101'', cr_description = Some ''An introductory course'',
            cr_created_at = 5, cr_updated_at = 5\<rparr>"

definition traveller :: PersonRead where
  "traveller = \<lparr>pr_uni = ''abc1234'', pr_first_name = ''Ada'', pr_last_name = ''Lovelace'',
     pr_email = ''ada@example.com'', pr_phone = ''+1-212-555-0199'',
     pr_birth_date = \<lparr>d_year = 2000, d_month = 1, d_day = 5\<rparr>,
     pr_addresses =
       [\<lparr>ad_street = ''1 Main St'', ad_city = ''NYC'', ad_state = ''NY'',
          ad_postal_code = ''10001'', ad_country = ''USA''\<rparr>,
        \<lparr>ad_street = ''2 High St'', ad_city = ''Boston'', ad_state = ''MA'',
          ad_postal_code = ''02101'', ad_country = ''USA''\<rparr>],
     pr_id = 3, pr_created_at = 4, pr_updated_at = 4\<rparr>"

definition example_state :: state where
  "example_state =
     \<lparr>persons = [(3, traveller)], addresses = [],
      classes = [(VUUID 9, maths)], accounts = [(7, alice), (8, bob)],
      uuid_source = (\<lambda>n. 1000 + n), uuid_calls = 0,
      clock = (\<lambda>n. 100 + int n), clock_calls = 0\<rparr>"

definition empty_update :: AccountUpdate where
  "empty_update = \<lparr>au_username = Unset, au_number_id = Unset, au_amount = Unset\<rparr>"

definition bob_update :: AccountUpdate where
  "bob_update =
     \<lparr>au_username = Unset, au_number_id = Unset, au_amount = Given (Some (Finite 25))\<rparr>"

definition null_update :: AccountUpdate where
  "null_update = \<lparr>au_username = Given None, au_number_id = Unset, au_amount = Unset\<rparr>"

definition clear_description :: ClassUpdate where
  "clear_description = \<lparr>cu_name = Unset, cu_description = Given None\<rparr>"

definition maths_create :: ClassCreate where
  "maths_create = \<lparr>cc_name = ''Mathematics 101'',
                     cc_description = Some ''An introductory course to Mathematics.''\<rparr>"

definition alice_create :: AccountCreate where
  "alice_create = \<lparr>ac_username = ''alice'', ac_number_id = 1, ac_amount = Finite 10\<rparr>"

definition alice_created :: AccountRead where
  "alice_created = \<lparr>ar_username = ''alice'', ar_number_id = 1, ar_amount = Finite 10,
                    ar_id = 1000, ar_created_at = 100, ar_updated_at = 101\<rparr>"

section \<open>Dictionaries and constructors\<close>

lemma dump_field_apply:
  "dump_field k conv f k' =
     (if k' = k then (case f of Unset \<Rightarrow> None | Given None \<Rightarrow> Some VNone
                      | Given (Some v) \<Rightarrow> Some (conv v))
      else None)"
  by (cases "(k, conv, f)" rule: dump_field.cases) simp_all

lemma update_keeps_keys:
  "map_of al k = Some v \<Longrightarrow> map fst (AList.update k w al) = map fst al"
  by (simp add: update_keys map_of_eq_None_iff [symmetric])

lemma narrow_filter:
  "(case v of None \<Rightarrow> xs | Some w \<Rightarrow> filter (P w) xs) =
     filter (\<lambda>x. case v of None \<Rightarrow> True | Some w \<Rightarrow> P w x) xs"
  by (cases v) simp_all

text \<open>A new account: every default factory runs, the clock is read twice.\<close>

lemma AccountRead_init_create:
  "AccountRead_init (AccountCreate_model_dump a) s =
     (Inr \<lparr>ar_username = ac_username a, ar_number_id = ac_number_id a, ar_amount = ac_amount a,
           ar_id = uuid_source s (uuid_calls s),
           ar_created_at = clock s (clock_calls s),
           ar_updated_at = clock s (clock_calls s + 1)\<rparr>,
      s\<lparr>uuid_calls := uuid_calls s + 1, clock_calls := clock_calls s + 2\<rparr>)"
  by (simp add: AccountRead_init_def AccountCreate_model_dump_def uuid4_def utcnow_def)

text \<open>
  The merged dictionary of a patch holds \<^verbatim>\<open>id\<close>, \<^verbatim>\<open>created_at\<close> and \<^verbatim>\<open>updated_at\<close> of the
  stored record, so no default factory runs when the record is rebuilt.
\<close>

lemma merged_account_dict:
  fixes r u
  defines "d \<equiv> AccountRead_model_dump r ++ AccountUpdate_model_dump u"
  shows "validate_str (d ''username'') =
           (case au_username u of Unset \<Rightarrow> Some (ar_username r) | Given v \<Rightarrow> v)"
    and "validate_int (d ''number_id'') =
           (case au_number_id u of Unset \<Rightarrow> Some (ar_number_id r) | Given v \<Rightarrow> v)"
    and "validate_float (d ''amount'') =
           (case au_amount u of Unset \<Rightarrow> Some (ar_amount r) | Given v \<Rightarrow> v)"
    and "d ''id'' = Some (VUUID (ar_id r))"
    and "d ''created_at'' = Some (VDateTime (ar_created_at r))"
    and "d ''updated_at'' = Some (VDateTime (ar_updated_at r))"
  unfolding d_def
  by (simp_all add: AccountRead_model_dump_def AccountUpdate_model_dump_def map_add_def
        dump_field_apply split: update_field.split option.split)

lemma AccountRead_init_merged:
  "AccountRead_init (AccountRead_model_dump r ++ AccountUpdate_model_dump u) s =
     (if au_username u = Given None \<or> au_number_id u = Given None \<or> au_amount u = Given None
      then (Inl ValidationError, s)
      else (Inr \<lparr>ar_username = overlay (au_username u) (ar_username r),
                 ar_number_id = overlay (au_number_id u) (ar_number_id r),
                 ar_amount = overlay (au_amount u) (ar_amount r),
                 ar_id = ar_id r, ar_created_at = ar_created_at r,
                 ar_updated_at = ar_updated_at r\<rparr>, s))"
  unfolding AccountRead_init_def
  by (simp add: merged_account_dict overlay_def split: update_field.split option.split)

lemma update_account_stored:
  assumes "map_of (accounts s) account_id = Some r"
  shows "update_account account_id u s =
     (if au_username u = Given None \<or> au_number_id u = Given None \<or> au_amount u = Given None
      then (Inl ValidationError, s)
      else (let new = \<lparr>ar_username = overlay (au_username u) (ar_username r),
                 ar_number_id = overlay (au_number_id u) (ar_number_id r),
                 ar_amount = overlay (au_amount u) (ar_amount r),
                 ar_id = ar_id r, ar_created_at = ar_created_at r,
                 ar_updated_at = ar_updated_at r\<rparr>
            in (Inr new, s\<lparr>accounts := AList.update account_id new (accounts s)\<rparr>)))"
  using assms by (simp add: update_account_def AccountRead_init_merged Let_def)

lemma ClassRead_init_create:
  "ClassRead_init (ClassCreate_model_dump c) s =
     (Inr \<lparr>cr_name = cc_name c, cr_description = cc_description c,
           cr_created_at = clock s (clock_calls s),
           cr_updated_at = clock s (clock_calls s + 1)\<rparr>,
      s\<lparr>clock_calls := clock_calls s + 2\<rparr>)"
  by (cases "cc_description c")
     (simp_all add: ClassRead_init_def ClassCreate_model_dump_def utcnow_def)

lemma ClassRead_has_no_id: "ClassRead_getattr r ''id'' = Inl AttributeError"
  by (simp add: ClassRead_getattr_def ClassRead_model_dump_def)

lemma merged_class_dict:
  fixes r u
  defines "d \<equiv> ClassRead_model_dump r ++ ClassUpdate_model_dump u"
  shows "validate_str (d ''name'') =
           (case cu_name u of Unset \<Rightarrow> Some (cr_name r) | Given v \<Rightarrow> v)"
    and "validate_optional_str (d ''description'') =
           Some (case cu_description u of Unset \<Rightarrow> cr_description r | Given v \<Rightarrow> v)"
    and "d ''created_at'' = Some (VDateTime (cr_created_at r))"
    and "d ''updated_at'' = Some (VDateTime (cr_updated_at r))"
  unfolding d_def
  by (cases "cr_description r";
      simp add: ClassRead_model_dump_def ClassUpdate_model_dump_def map_add_def
        dump_field_apply split: update_field.split option.split)+

lemma ClassRead_init_merged:
  "ClassRead_init (ClassRead_model_dump r ++ ClassUpdate_model_dump u) s =
     (if cu_name u = Given None then (Inl ValidationError, s)
      else (Inr \<lparr>cr_name = overlay (cu_name u) (cr_name r),
                 cr_description =
                   (case cu_description u of Unset \<Rightarrow> cr_description r | Given v \<Rightarrow> v),
                 cr_created_at = cr_created_at r,
                 cr_updated_at = cr_updated_at r\<rparr>, s))"
  unfolding ClassRead_init_def
  by (simp add: merged_class_dict overlay_def split: update_field.split option.split)

lemma update_class_stored:
  assumes "map_of (classes s) (VUUID class_id) = Some r"
  shows "update_class class_id u s =
     (if cu_name u = Given None then (Inl ValidationError, s)
      else (let new = \<lparr>cr_name = overlay (cu_name u) (cr_name r),
                 cr_description =
                   (case cu_description u of Unset \<Rightarrow> cr_description r | Given v \<Rightarrow> v),
                 cr_created_at = cr_created_at r,
                 cr_updated_at = cr_updated_at r\<rparr>
            in (Inr new, s\<lparr>classes := AList.update (VUUID class_id) new (classes s)\<rparr>)))"
  using assms by (simp add: update_class_def ClassRead_init_merged Let_def)

lemma list_accounts_fst:
  "fst (list_accounts username number_id amount s) =
     filter (account_matches username number_id amount) (map snd (accounts s))"
  unfolding list_accounts_def Let_def fst_conv narrow_filter filter_filter account_matches_def
  by (rule filter_cong) auto

lemma list_persons_fst:
  "fst (list_persons uni first_name last_name email phone birth_date city country s) =
     filter (person_matches uni first_name last_name email phone birth_date city country)
       (map snd (persons s))"
  unfolding list_persons_def Let_def fst_conv narrow_filter filter_filter person_matches_def
    list_ex_iff
  by (rule filter_cong) auto

text \<open>
  A patch of a stored account never reads the clock: the rebuilt record carries the stored
  \<^verbatim>\<open>updated_at\<close>.
\<close>

lemma update_account_never_restamps:
  assumes "map_of (accounts s) account_id = Some r"
    and "update_account account_id u s = (Inr r', s')"
  shows "ar_updated_at r' = ar_updated_at r \<and> clock_calls s' = clock_calls s"
  using assms(2) unfolding update_account_stored [OF assms(1)]
  by (auto simp: Let_def split: if_splits)

text \<open>
  \<^verbatim>\<open>create_class\<close> raises for every payload: the record is built (two clock readings), then
  \<^verbatim>\<open>class_read.id\<close> fails, before anything is stored.
\<close>

lemma create_class_raises:
  "create_class cls s = (Inl AttributeError, s\<lparr>clock_calls := clock_calls s + 2\<rparr>)"
  by (simp add: create_class_def ClassRead_init_create ClassRead_has_no_id)

section \<open>Properties of the endpoints\<close>

subsection \<open>Merge-update and the update timestamp\<close>

text \<open>
  C1. The spec has a successful merge-update set \<^verbatim>\<open>updated_at\<close> to the current time, also
  when the payload sets no field; \<^verbatim>\<open>AccountRead.updated_at\<close> is described in the model as the
  "Last update timestamp (UTC)". The handler does not do it. Account 7 was last stamped at
  time 5; it is patched with an empty payload while the clock reads 100. The patch succeeds,
  and the record returned and stored is the old one, \<^verbatim>\<open>updated_at\<close> still 5: the dumped record
  already holds the key \<^verbatim>\<open>updated_at\<close>, so the default factory is not called.
\<close>

theorem update_account_keeps_old_updated_at:
  "update_account 7 empty_update example_state = (Inr alice, example_state)
   \<and> map_of (accounts example_state) 7 = Some alice
   \<and> ar_updated_at alice = 5
   \<and> clock example_state (clock_calls example_state) = 100"
  by (simp add: update_account_def AccountRead_init_def AccountRead_model_dump_def
        AccountUpdate_model_dump_def example_state_def alice_def empty_update_def)

subsection \<open>Creating a class\<close>

text \<open>
  C2. The spec has \<^verbatim>\<open>create_class\<close> succeed for every valid payload, storing the record under
  a freshly generated UUID; the handler's comment says "Each class gets its own UUID". It
  fails instead: \<^verbatim>\<open>ClassRead\<close> declares no \<^verbatim>\<open>id\<close> field, so \<^verbatim>\<open>class_read.id\<close> raises
  \<^verbatim>\<open>AttributeError\<close> and nothing is stored. Here on the example payload of the model.
\<close>

theorem create_class_example_raises:
  "create_class maths_create example_state =
     (Inl AttributeError, example_state\<lparr>clock_calls := 2\<rparr>)
   \<and> classes (snd (create_class maths_create example_state)) = classes example_state"
  by (simp add: create_class_def ClassRead_init_def ClassCreate_model_dump_def utcnow_def
        ClassRead_getattr_def ClassRead_model_dump_def maths_create_def example_state_def)

subsection \<open>What a merge-update changes\<close>

text \<open>
  C3, as the spec states it: for every stored record and every update payload the
  merge-update changes exactly the fields present in the payload. A payload may hold a field
  with the value \<^verbatim>\<open>null\<close>: \<^verbatim>\<open>AccountUpdate\<close> declares every field \<^verbatim>\<open>Optional\<close>. Account 8
  has username \<^verbatim>\<open>bob\<close>; it is patched with a payload whose only field is a null username.
  The field is present, yet it is not changed: \<^verbatim>\<open>AccountRead\<close> declares \<^verbatim>\<open>username: str\<close>, so
  rebuilding the record raises \<^verbatim>\<open>ValidationError\<close>, and the store keeps the old record.
\<close>

theorem update_account_null_field_not_applied:
  "au_username null_update = Given None
   \<and> map_of (accounts example_state) 8 = Some bob
   \<and> ar_username bob = ''bob''
   \<and> update_account 8 null_update example_state = (Inl ValidationError, example_state)
   \<and> map_of (accounts (snd (update_account 8 null_update example_state))) 8 = Some bob"
  by (simp add: update_account_def AccountRead_init_def AccountRead_model_dump_def
        AccountUpdate_model_dump_def example_state_def bob_def null_update_def)

text \<open>
  C3, amended: for a stored account \<open>r\<close> and an update payload \<open>u\<close> in which no field is sent
  as \<^verbatim>\<open>null\<close>, \<^verbatim>\<open>update_account\<close> succeeds and changes the domain fields sent in \<open>u\<close> and
  nothing else: the new record has the \<^verbatim>\<open>id\<close> and the \<^verbatim>\<open>created_at\<close> of \<open>r\<close>, every field
  that was not sent keeps its value, every field that was sent has the sent value; the record
  replaces \<open>r\<close> under the same key, at the same position, and no other entry of the store
  changes. A payload that sends \<^verbatim>\<open>null\<close> for a field is rejected by \<^verbatim>\<open>AccountRead\<close> with a
  \<^verbatim>\<open>ValidationError\<close> (no field of an account may be \<^verbatim>\<open>None\<close>), and then nothing at all
  changes.
\<close>

theorem update_account_changes_only_sent_fields:
  assumes "map_of (accounts s) account_id = Some r"
  shows "if au_username u = Given None \<or> au_number_id u = Given None \<or> au_amount u = Given None
         then update_account account_id u s = (Inl ValidationError, s)
         else (\<exists>r'. update_account account_id u s =
                       (Inr r', s\<lparr>accounts := AList.update account_id r' (accounts s)\<rparr>)
                \<and> map_of (AList.update account_id r' (accounts s)) account_id = Some r'
                \<and> map fst (AList.update account_id r' (accounts s)) = map fst (accounts s)
                \<and> (\<forall>k. k \<noteq> account_id \<longrightarrow>
                      map_of (AList.update account_id r' (accounts s)) k = map_of (accounts s) k)
                \<and> ar_id r' = ar_id r
                \<and> ar_created_at r' = ar_created_at r
                \<and> (au_username u = Unset \<longrightarrow> ar_username r' = ar_username r)
                \<and> (au_number_id u = Unset \<longrightarrow> ar_number_id r' = ar_number_id r)
                \<and> (au_amount u = Unset \<longrightarrow> ar_amount r' = ar_amount r)
                \<and> (\<forall>v. au_username u = Given (Some v) \<longrightarrow> ar_username r' = v)
                \<and> (\<forall>v. au_number_id u = Given (Some v) \<longrightarrow> ar_number_id r' = v)
                \<and> (\<forall>v. au_amount u = Given (Some v) \<longrightarrow> ar_amount r' = v))"
  using assms
  by (simp add: update_account_stored [OF assms] Let_def overlay_def update_conv'
        update_keeps_keys)

text \<open>On account 8: a patch of the amount alone, and a patch that sends a null username.\<close>

theorem update_account_changes_only_sent_fields_witness:
  "map_of (accounts example_state) 8 = Some bob
   \<and> update_account 8 bob_update example_state =
       (Inr (bob\<lparr>ar_amount := Finite 25\<rparr>),
        example_state\<lparr>accounts := [(7, alice), (8, bob\<lparr>ar_amount := Finite 25\<rparr>)]\<rparr>)
   \<and> update_account 8 null_update example_state = (Inl ValidationError, example_state)"
  using update_account_changes_only_sent_fields [of example_state 8 bob bob_update]
    update_account_changes_only_sent_fields [of example_state 8 bob null_update]
  by (simp add: update_account_def AccountRead_init_def AccountRead_model_dump_def
        AccountUpdate_model_dump_def example_state_def bob_def bob_update_def null_update_def)

subsection \<open>Timestamps of a new record\<close>

text \<open>
  C4, as the spec states it: at creation \<^verbatim>\<open>created_at\<close> equals \<^verbatim>\<open>updated_at\<close>. The two fields
  have separate default factories, each its own call of \<^verbatim>\<open>datetime.utcnow()\<close>. On a clock that
  advances between the two calls the new record has \<^verbatim>\<open>created_at\<close> 100 and \<^verbatim>\<open>updated_at\<close> 101.
\<close>

theorem create_account_timestamps_differ:
  "fst (create_account alice_create example_state) = Inr alice_created
   \<and> map_of (accounts (snd (create_account alice_create example_state))) 1000
       = Some alice_created
   \<and> ar_created_at alice_created \<noteq> ar_updated_at alice_created"
  by (simp add: create_account_def AccountRead_init_def AccountCreate_model_dump_def
        uuid4_def utcnow_def alice_create_def alice_created_def example_state_def)

text \<open>
  C4, amended: for every valid Create payload the creation succeeds, and the stored record's
  \<^verbatim>\<open>created_at\<close> and \<^verbatim>\<open>updated_at\<close> are two successive readings of the clock, \<^verbatim>\<open>created_at\<close>
  the first and \<^verbatim>\<open>updated_at\<close> the second; they are equal exactly when the two readings are.
\<close>

theorem create_account_timestamps:
  "\<exists>r s'. create_account a s = (Inr r, s')
     \<and> map_of (accounts s') (ar_id r) = Some r
     \<and> ar_created_at r = clock s (clock_calls s)
     \<and> ar_updated_at r = clock s (clock_calls s + 1)
     \<and> (ar_created_at r = ar_updated_at r
          \<longleftrightarrow> clock s (clock_calls s) = clock s (clock_calls s + 1))"
  by (simp add: create_account_def AccountRead_init_create update_conv')

theorem create_account_timestamps_witness:
  "\<exists>r s'. create_account alice_create example_state = (Inr r, s')
     \<and> map_of (accounts s') (ar_id r) = Some r
     \<and> ar_created_at r = 100
     \<and> ar_updated_at r = 101"
proof -
  have readings: "clock example_state (clock_calls example_state) = 100"
    "clock example_state (clock_calls example_state + 1) = 101"
    by (simp_all add: example_state_def)
  from create_account_timestamps [of alice_create example_state]
  show ?thesis unfolding readings by blast
qed

subsection \<open>Listing with filters\<close>

text \<open>
  C5. For every store and every combination of the optional filters, \<^verbatim>\<open>list_accounts\<close>
  returns the records of the full scan for which every supplied filter's field equals the
  given value, in the order of the scan; with no filter supplied it returns the full scan in
  insertion order.
\<close>

theorem list_accounts_conjunction:
  "fst (list_accounts username number_id amount s) =
     filter (account_matches username number_id amount) (map snd (accounts s))
   \<and> fst (list_accounts None None None s) = map snd (accounts s)"
proof
  show "fst (list_accounts username number_id amount s) =
     filter (account_matches username number_id amount) (map snd (accounts s))"
    by (rule list_accounts_fst)
  show "fst (list_accounts None None None s) = map snd (accounts s)"
    by (simp add: list_accounts_def)
qed

theorem list_accounts_conjunction_witness:
  "fst (list_accounts None None (Some (Finite 20)) example_state) = [bob]
   \<and> fst (list_accounts (Some ''alice'') (Some 2) None example_state) = []
   \<and> fst (list_accounts None None None example_state) = [alice, bob]"
  using list_accounts_conjunction [of None None "Some (Finite 20)" example_state]
    list_accounts_conjunction [of "Some ''alice''" "Some 2" None example_state]
  by (simp add: account_matches_def float_eq_def example_state_def alice_def bob_def)

text \<open>
  C6. A person passes a supplied \<^verbatim>\<open>city\<close> (or \<^verbatim>\<open>country\<close>) filter exactly when at least one
  entry of its embedded address list has that city (country): adding the filter to any other
  combination of filters keeps exactly the persons with such an address, and with no other
  filter a stored person is listed if and only if it has one.
\<close>

theorem list_persons_any_address:
  "(p \<in> set (fst (list_persons uni first_name last_name email phone birth_date
                    (Some v) country s))
      \<longleftrightarrow> p \<in> set (fst (list_persons uni first_name last_name email phone birth_date
                            None country s))
          \<and> (\<exists>addr \<in> set (pr_addresses p). ad_city addr = v))
   \<and> (p \<in> set (fst (list_persons uni first_name last_name email phone birth_date
                      city (Some v) s))
      \<longleftrightarrow> p \<in> set (fst (list_persons uni first_name last_name email phone birth_date
                            city None s))
          \<and> (\<exists>addr \<in> set (pr_addresses p). ad_country addr = v))
   \<and> (p \<in> set (map snd (persons s)) \<longrightarrow>
        (p \<in> set (fst (list_persons None None None None None None (Some v) None s))
           \<longleftrightarrow> (\<exists>addr \<in> set (pr_addresses p). ad_city addr = v))
      \<and> (p \<in> set (fst (list_persons None None None None None None None (Some v) s))
           \<longleftrightarrow> (\<exists>addr \<in> set (pr_addresses p). ad_country addr = v)))"
  unfolding list_persons_fst by (auto simp: person_matches_def)

text \<open>The person with addresses in NYC and Boston: found by either city, not by Chicago.\<close>

theorem list_persons_any_address_witness:
  "traveller \<in> set (map snd (persons example_state))
   \<and> traveller \<in> set (fst (list_persons None None None None None None (Some ''NYC'') None
                               example_state))
   \<and> traveller \<in> set (fst (list_persons None None None None None None (Some ''Boston'') None
                               example_state))
   \<and> traveller \<notin> set (fst (list_persons None None None None None None (Some ''Chicago'') None
                               example_state))
   \<and> traveller \<in> set (fst (list_persons None None None None None None None (Some ''USA'')
                               example_state))"
  using list_persons_any_address [of traveller None None None None None None "''NYC''" None
          example_state]
    list_persons_any_address [of traveller None None None None None None "''Boston''" None
          example_state]
    list_persons_any_address [of traveller None None None None None None "''Chicago''" None
          example_state]
    list_persons_any_address [of traveller None None None None None None "''USA''" None
          example_state]
  by (simp add: list_persons_def example_state_def traveller_def)

text \<open>
  C7. A person passes a supplied \<^verbatim>\<open>birth_date\<close> filter exactly when the text form of its
  stored birth date, \<^verbatim>\<open>str(p.birth_date)\<close>, is the filter string: adding the filter to any
  other combination of filters keeps exactly those persons, and with no other filter a stored
  person is listed if and only if the two strings are equal. The filter text is never parsed.
\<close>

theorem list_persons_birth_date_text:
  "(p \<in> set (fst (list_persons uni first_name last_name email phone (Some v) city country s))
      \<longleftrightarrow> p \<in> set (fst (list_persons uni first_name last_name email phone None
                            city country s))
          \<and> date_str (pr_birth_date p) = v)
   \<and> (p \<in> set (map snd (persons s)) \<longrightarrow>
        (p \<in> set (fst (list_persons None None None None None (Some v) None None s))
           \<longleftrightarrow> date_str (pr_birth_date p) = v))"
  unfolding list_persons_fst by (auto simp: person_matches_def)

text \<open>
  Born on 5 January 2000: found by \<^verbatim>\<open>2000-01-05\<close>, not by \<^verbatim>\<open>2000-1-5\<close>, which names the
  same day in another spelling.
\<close>

theorem list_persons_birth_date_text_witness:
  "traveller \<in> set (map snd (persons example_state))
   \<and> date_str (pr_birth_date traveller) = ''2000-01-05''
   \<and> traveller \<in> set (fst (list_persons None None None None None (Some ''2000-01-05'') None None
                               example_state))
   \<and> traveller \<notin> set (fst (list_persons None None None None None (Some ''2000-1-5'') None None
                               example_state))"
  using list_persons_birth_date_text [of traveller None None None None None "''2000-01-05''"
          None None example_state]
    list_persons_birth_date_text [of traveller None None None None None "''2000-1-5''"
          None None example_state]
  by (simp add: list_persons_def example_state_def traveller_def date_str_def pad2_def
        pad4_def digit_def)

subsection \<open>Missing identities\<close>

text \<open>
  C8. For an identity that is not in the store, the lookup by id and the merge-update fail
  with the 404 \<^verbatim>\<open>HTTPException\<close> (not found) and return the state they were given: the store
  is unchanged, and no entry appears for the missing identity.
\<close>

theorem missing_identity_not_found:
  "(map_of (accounts s) i = None \<longrightarrow>
      get_account i s = (Inl (HTTPException 404 ''Account not found''), s)
      \<and> update_account i au s = (Inl (HTTPException 404 ''Account not found''), s))
   \<and> (map_of (classes s) (VUUID i) = None \<longrightarrow>
      get_class i s = (Inl (HTTPException 404 ''Class not found''), s)
      \<and> update_class i cu s = (Inl (HTTPException 404 ''Class not found''), s))
   \<and> (map_of (persons s) i = None \<longrightarrow>
      get_person i s = (Inl (HTTPException 404 ''Person not found''), s))
   \<and> (map_of (addresses s) i = None \<longrightarrow>
      get_address i s = (Inl (HTTPException 404 ''Address not found''), s))"
  by (simp add: get_account_def update_account_def get_class_def update_class_def
        get_person_def get_address_def)

theorem missing_identity_not_found_witness:
  "map_of (accounts example_state) 42 = None
   \<and> map_of (classes example_state) (VUUID 42) = None
   \<and> map_of (persons example_state) 42 = None
   \<and> map_of (addresses example_state) 42 = None
   \<and> get_account 42 example_state =
       (Inl (HTTPException 404 ''Account not found''), example_state)
   \<and> update_account 42 bob_update example_state =
       (Inl (HTTPException 404 ''Account not found''), example_state)
   \<and> get_class 42 example_state =
       (Inl (HTTPException 404 ''Class not found''), example_state)
   \<and> update_class 42 clear_description example_state =
       (Inl (HTTPException 404 ''Class not found''), example_state)
   \<and> get_person 42 example_state =
       (Inl (HTTPException 404 ''Person not found''), example_state)
   \<and> get_address 42 example_state =
       (Inl (HTTPException 404 ''Address not found''), example_state)
   \<and> map_of (accounts (snd (update_account 42 bob_update example_state))) 42 = None"
proof -
  have absent: "map_of (accounts example_state) 42 = None"
    "map_of (classes example_state) (VUUID 42) = None"
    "map_of (persons example_state) 42 = None"
    "map_of (addresses example_state) 42 = None"
    by (simp_all add: example_state_def)
  show ?thesis
    using missing_identity_not_found [of example_state 42 bob_update clear_description] absent
    by simp
qed

subsection \<open>A field sent as null\<close>

text \<open>
  C9. For a stored class and an update payload, a successful \<^verbatim>\<open>update_class\<close> applies a
  field that was sent as \<^verbatim>\<open>null\<close>: when \<^verbatim>\<open>description\<close> is sent as \<^verbatim>\<open>null\<close> the new record's
  description is \<^verbatim>\<open>None\<close>, whereas a description that was not sent keeps the stored value.
  The update succeeds whenever \<^verbatim>\<open>name\<close> is not sent as \<^verbatim>\<open>null\<close>; a null \<^verbatim>\<open>name\<close> is rejected
  by \<^verbatim>\<open>ClassRead\<close>, so no successful update carries one.
\<close>

theorem update_class_null_overrides:
  assumes "map_of (classes s) (VUUID class_id) = Some r"
  shows "(\<forall>r' s'. update_class class_id u s = (Inr r', s') \<longrightarrow>
            cu_name u \<noteq> Given None
            \<and> map_of (classes s') (VUUID class_id) = Some r'
            \<and> (cu_description u = Given None \<longrightarrow> cr_description r' = None)
            \<and> (cu_description u = Unset \<longrightarrow> cr_description r' = cr_description r))
       \<and> (cu_name u \<noteq> Given None \<longrightarrow> (\<exists>r'. fst (update_class class_id u s) = Inr r'))
       \<and> (cu_name u = Given None \<longrightarrow> update_class class_id u s = (Inl ValidationError, s))"
  by (auto simp: update_class_stored [OF assms] Let_def update_conv')

theorem update_class_null_overrides_witness:
  "map_of (classes example_state) (VUUID 9) = Some maths
   \<and> cr_description maths \<noteq> None
   \<and> update_class 9 clear_description example_state =
       (Inr (maths\<lparr>cr_description := None\<rparr>),
        example_state\<lparr>classes := [(VUUID 9, maths\<lparr>cr_description := None\<rparr>)]\<rparr>)
   \<and> cr_description (maths\<lparr>cr_description := None\<rparr>) = None"
  using update_class_null_overrides [of example_state 9 maths clear_description]
  by (simp add: update_class_def ClassRead_init_def ClassRead_model_dump_def
        ClassUpdate_model_dump_def example_state_def maths_def clear_description_def)

subsection \<open>Listing is read-only\<close>

text \<open>
  C10. Every list operation leaves the state as it found it, whatever filters are supplied:
  the four stores hold the same records under the same keys in the same order.
\<close>

theorem list_operations_read_only:
  "snd (list_accounts username number_id amount s) = s
   \<and> snd (list_persons uni first_name last_name email phone birth_date city country s) = s
   \<and> snd (list_classes name description s) = s
   \<and> snd (list_addresses street city' state postal_code country' s) = s"
  by (simp add: list_accounts_def list_persons_def list_classes_def list_addresses_def Let_def)

end
